theory Spec2Isabelle
  imports Complex_Main "HOL-Library.AList"
begin

section \<open>Values of the workout table\<close>

text \<open>
  A pandas float64 value. The special values of IEEE-754 arithmetic are kept apart,
  because the program tells an absent value (\<open>NaN\<close>) from a number by \<open>pd.isna\<close>;
  a finite value is a real number (rounding, overflow and the sign of zero are not
  modelled).
\<close>

datatype fl = NaN | PInf | NInf | Fin real

fun fadd :: "fl \<Rightarrow> fl \<Rightarrow> fl" where
  "fadd NaN _ = NaN"
| "fadd _ NaN = NaN"
| "fadd PInf NInf = NaN"
| "fadd NInf PInf = NaN"
| "fadd PInf _ = PInf"
| "fadd _ PInf = PInf"
| "fadd NInf _ = NInf"
| "fadd _ NInf = NInf"
| "fadd (Fin x) (Fin y) = Fin (x + y)"

definition finf :: "bool \<Rightarrow> fl" where
  "finf positive = (if positive then PInf else NInf)"

fun fmul :: "fl \<Rightarrow> fl \<Rightarrow> fl" where
  "fmul NaN _ = NaN"
| "fmul _ NaN = NaN"
| "fmul PInf PInf = PInf"
| "fmul PInf NInf = NInf"
| "fmul NInf PInf = NInf"
| "fmul NInf NInf = PInf"
| "fmul PInf (Fin y) = (if y = 0 then NaN else finf (0 < y))"
| "fmul NInf (Fin y) = (if y = 0 then NaN else finf (y < 0))"
| "fmul (Fin x) PInf = (if x = 0 then NaN else finf (0 < x))"
| "fmul (Fin x) NInf = (if x = 0 then NaN else finf (x < 0))"
| "fmul (Fin x) (Fin y) = Fin (x * y)"

text \<open>
  Division of two float64 values as numpy does it inside a pandas Series: nothing is
  raised; \<open>0/0\<close> is \<open>NaN\<close> and \<open>x/0\<close> with \<open>x \<noteq> 0\<close> is an infinity.
\<close>

fun fdiv :: "fl \<Rightarrow> fl \<Rightarrow> fl" where
  "fdiv NaN _ = NaN"
| "fdiv _ NaN = NaN"
| "fdiv (Fin x) (Fin y) =
     (if y = 0 then (if x = 0 then NaN else finf (0 < x)) else Fin (x / y))"
| "fdiv (Fin x) _ = Fin 0"
| "fdiv PInf (Fin y) = finf (0 \<le> y)"
| "fdiv NInf (Fin y) = finf (y < 0)"
| "fdiv _ _ = NaN"

text \<open>What the division gives for a finite numerator \<open>x\<close> over zero.\<close>

definition over_zero :: "real \<Rightarrow> fl" where
  "over_zero x = (if x = 0 then NaN else if 0 < x then PInf else NInf)"

text \<open>
  A timestamp of the \<open>c_datetime\<close> column (normalised to UTC): the calendar date and
  the time of day.
\<close>

record timestamp =
  year :: int
  month :: int
  day :: int
  time_of_day :: nat

text \<open>
  A cell of the table: a number (\<open>F NaN\<close> is the missing value of a CSV cell), a
  string, a \<open>datetime.date\<close> (its proleptic Gregorian ordinal), a timestamp, or
  \<open>NaT\<close>.
\<close>

datatype cell = F fl | S string | D int | TS timestamp | NaT

datatype error = KeyError string | TypeError | ValueError | AttributeError

definition attempt :: "error + 'a \<Rightarrow> ('a \<Rightarrow> error + 'b) \<Rightarrow> error + 'b" where
  "attempt m f = (case m of Inl e \<Rightarrow> Inl e | Inr v \<Rightarrow> f v)"

text \<open>\<open>pd.isna\<close> / \<open>pd.isnull\<close> on a scalar.\<close>

fun isna :: "cell \<Rightarrow> bool" where
  "isna (F NaN) = True"
| "isna NaT = True"
| "isna _ = False"

text \<open>The operand of a float addition or multiplication: anything but a number raises.\<close>

fun as_float :: "cell \<Rightarrow> error + fl" where
  "as_float (F x) = Inr x"
| "as_float _ = Inl TypeError"

section \<open>The table\<close>

text \<open>
  A DataFrame is column-oriented: named columns of \<open>nrows\<close> cells each. A row, as
  \<open>iterrows\<close> yields it, maps the column names to the cells of that row.
\<close>

record dataframe =
  nrows :: nat
  columns :: "(string \<times> cell list) list"

type_synonym row = "(string \<times> cell) list"

definition cell_at :: "cell list \<Rightarrow> nat \<Rightarrow> cell" where
  "cell_at vs i = (if i < length vs then vs ! i else F NaN)"

definition iterrows :: "dataframe \<Rightarrow> row list" where
  "iterrows df = map (\<lambda>i. map (\<lambda>(c, vs). (c, cell_at vs i)) (columns df)) [0..<nrows df]"

definition getitem :: "row \<Rightarrow> string \<Rightarrow> error + cell" where
  "getitem row c = (case map_of row c of None \<Rightarrow> Inl (KeyError c) | Some v \<Rightarrow> Inr v)"

section \<open>Aggregation\<close>

text \<open>
  A \<open>defaultdict\<close> keyed by group, and a pandas Series built from it, are association
  lists. \<open>add_to d key x\<close> is \<open>d[key] += x\<close> on a \<open>defaultdict\<close> whose default is zero.
\<close>

type_synonym series = "(cell \<times> fl) list"

definition add_to :: "series \<Rightarrow> cell \<Rightarrow> fl \<Rightarrow> series" where
  "add_to d key x =
     AList.update key (fadd (case map_of d key of None \<Rightarrow> Fin 0 | Some v \<Rightarrow> v) x) d"

record accumulators =
  total_workouts :: series
  total_time :: series
  total_distance :: series
  total_output :: series
  total_output_minutes :: series
  total_calories :: series
  total_calories_minutes :: series
  total_hr :: series
  total_hr_minutes :: series
  total_speed :: series
  total_speed_minutes :: series
  total_cadence :: series
  total_cadence_minutes :: series

definition empty_accumulators :: accumulators where
  "empty_accumulators = \<lparr>total_workouts = [], total_time = [], total_distance = [],
     total_output = [], total_output_minutes = [], total_calories = [],
     total_calories_minutes = [], total_hr = [], total_hr_minutes = [],
     total_speed = [], total_speed_minutes = [], total_cadence = [],
     total_cadence_minutes = []\<rparr>"

text \<open>
  One block \<open>if not pd.isna(row[col]): ...\<close> of the loop body: \<open>upd\<close> is what the
  block does with the value.
\<close>

definition if_present :: "row \<Rightarrow> string \<Rightarrow> (fl \<Rightarrow> accumulators \<Rightarrow> accumulators) \<Rightarrow>
    accumulators \<Rightarrow> error + accumulators" where
  "if_present row col upd a =
     attempt (getitem row col) (\<lambda>v.
       if isna v then Inr a else attempt (as_float v) (\<lambda>x. Inr (upd x a)))"

text \<open>The body of the loop after the key is known (lines 42 to 67).\<close>

definition update_accumulators :: "cell \<Rightarrow> row \<Rightarrow> accumulators \<Rightarrow> error + accumulators" where
  "update_accumulators key row a =
     attempt (Inr (a\<lparr>total_workouts := add_to (total_workouts a) key (Fin 1)\<rparr>)) (\<lambda>a.
     attempt (if_present row ''Distance (mi)''
            (\<lambda>x a. a\<lparr>total_distance := add_to (total_distance a) key x\<rparr>) a) (\<lambda>a.
     attempt (getitem row ''Length (minutes)'') (\<lambda>len.
       if isna len then Inr a
       else
         attempt (as_float len) (\<lambda>m.
         attempt (Inr (a\<lparr>total_time := add_to (total_time a) key m\<rparr>)) (\<lambda>a.
         attempt (if_present row ''Total Output''
                (\<lambda>x a. a\<lparr>total_output := add_to (total_output a) key x,
                         total_output_minutes := add_to (total_output_minutes a) key m\<rparr>) a) (\<lambda>a.
         attempt (if_present row ''Calories Burned''
                (\<lambda>x a. a\<lparr>total_calories := add_to (total_calories a) key x,
                         total_calories_minutes := add_to (total_calories_minutes a) key m\<rparr>) a) (\<lambda>a.
         attempt (if_present row ''Avg. Heartrate''
                (\<lambda>x a. a\<lparr>total_hr := add_to (total_hr a) key (fmul m x),
                         total_hr_minutes := add_to (total_hr_minutes a) key m\<rparr>) a) (\<lambda>a.
         attempt (if_present row ''Avg. Speed (mph)''
                (\<lambda>x a. a\<lparr>total_speed := add_to (total_speed a) key (fmul m x),
                         total_speed_minutes := add_to (total_speed_minutes a) key m\<rparr>) a) (\<lambda>a.
         if_present row ''Avg. Cadence (RPM)''
                (\<lambda>x a. a\<lparr>total_cadence := add_to (total_cadence a) key (fmul m x),
                         total_cadence_minutes := add_to (total_cadence_minutes a) key m\<rparr>) a)))))))))"

text \<open>
  The key of a row (lines 32 to 39): \<open>Inr None\<close> is the \<open>continue\<close> on a null key.
  \<open>if group_by:\<close> is false for \<open>None\<close> and for the empty string.
\<close>

definition row_key :: "string option \<Rightarrow> row \<Rightarrow> error + cell option" where
  "row_key group_by row =
     (case group_by of
        None \<Rightarrow> Inr (Some (S ''All Time''))
      | Some g \<Rightarrow>
          if g = [] then Inr (Some (S ''All Time''))
          else attempt (getitem row g) (\<lambda>key. if isna key then Inr None else Inr (Some key)))"

fun accumulate :: "string option \<Rightarrow> row list \<Rightarrow> accumulators \<Rightarrow> error + accumulators" where
  "accumulate group_by [] a = Inr a"
| "accumulate group_by (row # rows) a =
     attempt (row_key group_by row) (\<lambda>k.
       case k of
         None \<Rightarrow> accumulate group_by rows a
       | Some key \<Rightarrow> attempt (update_accumulators key row a) (accumulate group_by rows))"

text \<open>
  The summary table (lines 69 to 86). Arithmetic on two Series and the DataFrame
  constructor align their operands on the union of the indexes, and a label missing
  from an operand gives \<open>NaN\<close>. The order of the rows of the result is not modelled
  beyond first occurrence.
\<close>

definition value_at :: "series \<Rightarrow> cell \<Rightarrow> fl" where
  "value_at s k = (case map_of s k of None \<Rightarrow> NaN | Some v \<Rightarrow> v)"

definition union_index :: "series list \<Rightarrow> cell list" where
  "union_index ss = remdups (concat (map (map fst) ss))"

definition series_div :: "series \<Rightarrow> series \<Rightarrow> series" where
  "series_div a b =
     map (\<lambda>k. (k, case (map_of a k, map_of b k) of
                    (Some x, Some y) \<Rightarrow> fdiv x y | _ \<Rightarrow> NaN)) (union_index [a, b])"

record summary =
  Total_Workouts :: fl
  Total_Minutes :: fl
  Total_Distance :: fl
  Total_Output :: fl
  Total_Calories :: fl
  Output_per_Minute :: fl
  Calories_per_Minute :: fl
  Avg_Heartrate :: fl
  Avg_Speed :: fl
  Avg_Cadence :: fl

definition DataFrame :: "accumulators \<Rightarrow> (cell \<times> summary) list" where
  "DataFrame a =
     (let opm = series_div (total_output a) (total_output_minutes a);
          cpm = series_div (total_calories a) (total_calories_minutes a);
          hr = series_div (total_hr a) (total_hr_minutes a);
          speed = series_div (total_speed a) (total_speed_minutes a);
          cadence = series_div (total_cadence a) (total_cadence_minutes a)
      in map (\<lambda>k. (k, \<lparr>Total_Workouts = value_at (total_workouts a) k,
                       Total_Minutes = value_at (total_time a) k,
                       Total_Distance = value_at (total_distance a) k,
                       Total_Output = value_at (total_output a) k,
                       Total_Calories = value_at (total_calories a) k,
                       Output_per_Minute = value_at opm k,
                       Calories_per_Minute = value_at cpm k,
                       Avg_Heartrate = value_at hr k,
                       Avg_Speed = value_at speed k,
                       Avg_Cadence = value_at cadence k\<rparr>))
           (union_index [total_workouts a, total_time a, total_distance a, total_output a,
              total_calories a, opm, cpm, hr, speed, cadence]))"

record aggregation =
  group_by :: "string option"
  aggregated_df :: "(cell \<times> summary) list"

definition Aggregation :: "dataframe \<Rightarrow> string option \<Rightarrow> error + aggregation" where
  "Aggregation workouts_df g =
     attempt (accumulate g (iterrows workouts_df) empty_accumulators) (\<lambda>a.
       Inr \<lparr>group_by = g, aggregated_df = DataFrame a\<rparr>)"

section \<open>What the loop computes\<close>

text \<open>
  The number a row holds in a column, \<open>NaN\<close> when the column is missing from the row
  or the cell is not a number; a value is present when that number is not \<open>NaN\<close>.
\<close>

definition num :: "row \<Rightarrow> string \<Rightarrow> fl" where
  "num row c = (case map_of row c of Some (F x) \<Rightarrow> x | _ \<Rightarrow> NaN)"

definition present :: "row \<Rightarrow> string \<Rightarrow> bool" where
  "present row c = (num row c \<noteq> NaN)"

text \<open>The group of a row: \<open>None\<close> when the row is skipped or its key cannot be read.\<close>

definition key_of :: "string option \<Rightarrow> row \<Rightarrow> cell option" where
  "key_of g row = (case row_key g row of Inr (Some k) \<Rightarrow> Some k | _ \<Rightarrow> None)"

text \<open>The rows of a group, in input order, and a sum in input order.\<close>

definition group_rows :: "string option \<Rightarrow> cell \<Rightarrow> row list \<Rightarrow> row list" where
  "group_rows g k rows = filter (\<lambda>r. key_of g r = Some k) rows"

definition fsum :: "fl list \<Rightarrow> fl" where
  "fsum vs = foldl fadd (Fin 0) vs"

text \<open>
  The effect of one successful pass of the loop body, and of the loop, without the
  error branches.
\<close>

definition credit :: "bool \<Rightarrow> series \<Rightarrow> cell \<Rightarrow> fl \<Rightarrow> series" where
  "credit b d key x = (if b then add_to d key x else d)"

definition pure_update :: "cell \<Rightarrow> row \<Rightarrow> accumulators \<Rightarrow> accumulators" where
  "pure_update key row a =
     (let m = num row ''Length (minutes)'';
          len = present row ''Length (minutes)'';
          out = len \<and> present row ''Total Output'';
          cal = len \<and> present row ''Calories Burned'';
          hr = len \<and> present row ''Avg. Heartrate'';
          speed = len \<and> present row ''Avg. Speed (mph)'';
          cadence = len \<and> present row ''Avg. Cadence (RPM)''
      in \<lparr>total_workouts = add_to (total_workouts a) key (Fin 1),
          total_time = credit len (total_time a) key m,
          total_distance = credit (present row ''Distance (mi)'') (total_distance a) key
             (num row ''Distance (mi)''),
          total_output = credit out (total_output a) key (num row ''Total Output''),
          total_output_minutes = credit out (total_output_minutes a) key m,
          total_calories = credit cal (total_calories a) key (num row ''Calories Burned''),
          total_calories_minutes = credit cal (total_calories_minutes a) key m,
          total_hr = credit hr (total_hr a) key (fmul m (num row ''Avg. Heartrate'')),
          total_hr_minutes = credit hr (total_hr_minutes a) key m,
          total_speed = credit speed (total_speed a) key (fmul m (num row ''Avg. Speed (mph)'')),
          total_speed_minutes = credit speed (total_speed_minutes a) key m,
          total_cadence = credit cadence (total_cadence a) key
             (fmul m (num row ''Avg. Cadence (RPM)'')),
          total_cadence_minutes = credit cadence (total_cadence_minutes a) key m\<rparr>)"

fun pure_accumulate :: "string option \<Rightarrow> row list \<Rightarrow> accumulators \<Rightarrow> accumulators" where
  "pure_accumulate g [] a = a"
| "pure_accumulate g (r # rs) a =
     pure_accumulate g rs (case key_of g r of None \<Rightarrow> a | Some k \<Rightarrow> pure_update k r a)"

text \<open>
  One accumulator on its own: \<open>q\<close> says whether a row qualifies and \<open>v\<close> is what
  it adds.
\<close>

fun tally :: "string option \<Rightarrow> (row \<Rightarrow> bool) \<Rightarrow> (row \<Rightarrow> fl) \<Rightarrow> row list \<Rightarrow> series \<Rightarrow> series" where
  "tally g q v [] d = d"
| "tally g q v (r # rs) d =
     tally g q v rs (case key_of g r of None \<Rightarrow> d | Some k \<Rightarrow> credit (q r) d k (v r))"

text \<open>
  The rows of group \<open>k\<close> that qualify for an accumulator, the length of a row, and
  the test that a row has both its length and the value of column \<open>c\<close>.
\<close>

definition qualifying :: "string option \<Rightarrow> cell \<Rightarrow> (row \<Rightarrow> bool) \<Rightarrow> row list \<Rightarrow> row list" where
  "qualifying g k q rows = filter q (group_rows g k rows)"

definition minutes :: "row \<Rightarrow> fl" where
  "minutes r = num r ''Length (minutes)''"

definition has_both :: "string \<Rightarrow> row \<Rightarrow> bool" where
  "has_both c r = (present r ''Length (minutes)'' \<and> present r c)"




section \<open>Calendar arithmetic of the standard library\<close>

text \<open>
  The functions of Python's \<open>datetime\<close> and \<open>_strptime\<close> modules that the week key
  goes through. A date is identified with its proleptic Gregorian ordinal (1 is
  0001-01-01); a weekday is 0 for Monday to 6 for Sunday.
\<close>

definition is_leap :: "int \<Rightarrow> bool" where
  "is_leap y = (y mod 4 = 0 \<and> (y mod 100 \<noteq> 0 \<or> y mod 400 = 0))"

definition days_before_year :: "int \<Rightarrow> int" where
  "days_before_year y = (let p = y - 1 in p * 365 + p div 4 - p div 100 + p div 400)"

definition days_before_month :: "int \<Rightarrow> int \<Rightarrow> int" where
  "days_before_month y m =
     (if m \<le> 1 then 0 else if m = 2 then 31 else if m = 3 then 59 else if m = 4 then 90
      else if m = 5 then 120 else if m = 6 then 151 else if m = 7 then 181
      else if m = 8 then 212 else if m = 9 then 243 else if m = 10 then 273
      else if m = 11 then 304 else 334)
     + (if 2 < m \<and> is_leap y then 1 else 0)"

definition ymd2ord :: "int \<Rightarrow> int \<Rightarrow> int \<Rightarrow> int" where
  "ymd2ord y m d = days_before_year y + days_before_month y m + d"

definition toordinal :: "timestamp \<Rightarrow> int" where
  "toordinal x = ymd2ord (year x) (month x) (day x)"

definition weekday :: "int \<Rightarrow> int" where
  "weekday n = (n + 6) mod 7"

definition isoweek1monday :: "int \<Rightarrow> int" where
  "isoweek1monday y =
     (let firstday = ymd2ord y 1 1;
          firstweekday = (firstday + 6) mod 7;
          week1monday = firstday - firstweekday
      in if 3 < firstweekday then week1monday + 7 else week1monday)"

text \<open>\<open>x.isocalendar()\<close>: the ISO year, week and weekday.\<close>

definition isocalendar :: "timestamp \<Rightarrow> int \<times> int \<times> int" where
  "isocalendar x =
     (let y = year x;
          today = toordinal x;
          week = (today - isoweek1monday y) div 7;
          wd = (today - isoweek1monday y) mod 7
      in if week < 0 then
           (y - 1, (today - isoweek1monday (y - 1)) div 7 + 1,
            (today - isoweek1monday (y - 1)) mod 7 + 1)
         else if 52 \<le> week \<and> isoweek1monday (y + 1) \<le> today then (y + 1, 1, wd + 1)
         else (y, week + 1, wd + 1))"

definition calc_julian_from_U_or_W :: "int \<Rightarrow> int \<Rightarrow> int \<Rightarrow> bool \<Rightarrow> int" where
  "calc_julian_from_U_or_W y week_of_year day_of_week week_starts_Mon =
     (let first_weekday = weekday (ymd2ord y 1 1);
          first_weekday = (if week_starts_Mon then first_weekday else (first_weekday + 1) mod 7);
          day_of_week = (if week_starts_Mon then day_of_week else (day_of_week + 1) mod 7);
          week_0_length = (7 - first_weekday) mod 7
      in if week_of_year = 0 then 1 + day_of_week - first_weekday
         else 1 + (week_0_length + 7 * (week_of_year - 1)) + day_of_week)"

text \<open>
  \<open>datetime.strptime("{}-{}-{}".format(y, W, w), "%Y-%W-%w").date()\<close>: the directive
  \<open>%Y\<close> wants four digits, \<open>%W\<close> is the week of the year whose first week starts at
  the first Monday of the calendar year \<open>y\<close> (the days before it are week 0), and
  \<open>%w\<close> is the weekday with 0 for Sunday.
\<close>

definition strptime_Y_W_w :: "int \<Rightarrow> int \<Rightarrow> int \<Rightarrow> error + int" where
  "strptime_Y_W_w y W w =
     (if y < 1000 \<or> 9999 < y \<or> W < 0 \<or> 53 < W \<or> w < 0 \<or> 6 < w then Inl ValueError
      else
        let wd = (if w = 0 then 6 else w - 1);
            julian = calc_julian_from_U_or_W y W wd True;
            y' = (if julian \<le> 0 then y - 1 else y);
            julian = (if julian \<le> 0 then julian + (if is_leap (y - 1) then 366 else 365)
                      else julian)
        in Inr (julian - 1 + ymd2ord y' 1 1))"

section \<open>Normalisation\<close>

text \<open>\<open>s.replace(old, new)\<close> on Python strings.\<close>

function replace :: "string \<Rightarrow> string \<Rightarrow> string \<Rightarrow> string" where
  "replace old new s =
     (if old = [] then new @ concat (map (\<lambda>c. c # new) s)
      else if s = [] then []
      else if take (length old) s = old then new @ replace old new (drop (length old) s)
      else hd s # replace old new (tl s))"
  by pat_completeness auto
termination
  by (relation "measure (\<lambda>(old, new, s). length s)") (auto simp: Suc_le_eq)

text \<open>
  \<open>parse_datetime\<close> (lines 96 to 99) followed by \<open>pd.to_datetime(..., utc=True)\<close>
  (line 105). The parser is the third-party \<open>dateparser\<close>: \<open>parse\<close> stands for the
  instant it returns for a string, rendered in UTC, and \<open>None\<close> for a string it
  cannot read, which \<open>pd.to_datetime\<close> turns into \<open>NaT\<close>. A cell that is not a string
  has no \<open>str.replace\<close>.
\<close>

definition parse_datetime :: "(string \<Rightarrow> timestamp option) \<Rightarrow> cell \<Rightarrow> error + cell" where
  "parse_datetime parse x =
     (case x of
        S date_str \<Rightarrow>
          (case parse (replace ''(+'' ''(GMT+'' (replace ''(-'' ''(GMT-'' date_str)) of
             None \<Rightarrow> Inr NaT
           | Some t \<Rightarrow> Inr (TS t))
      | F _ \<Rightarrow> Inl AttributeError
      | _ \<Rightarrow> Inl TypeError)"

text \<open>
  The four calendar keys (lines 106 to 115). On \<open>NaT\<close>, \<open>date()\<close> gives \<open>NaT\<close>, and
  \<open>isocalendar\<close>, \<open>strftime\<close> and \<open>int(nan)\<close> raise \<open>ValueError\<close>.
\<close>

definition c_day :: "cell \<Rightarrow> error + cell" where
  "c_day x = (case x of TS t \<Rightarrow> Inr (D (toordinal t)) | NaT \<Rightarrow> Inr NaT | _ \<Rightarrow> Inl AttributeError)"

definition c_week :: "cell \<Rightarrow> error + cell" where
  "c_week x =
     (case x of
        TS t \<Rightarrow> attempt (strptime_Y_W_w (year t) (fst (snd (isocalendar t))) 1) (\<lambda>d. Inr (D d))
      | NaT \<Rightarrow> Inl ValueError
      | _ \<Rightarrow> Inl AttributeError)"

definition digit :: "int \<Rightarrow> char" where
  "digit n =
     (let d = n mod 10
      in if d = 0 then CHR ''0'' else if d = 1 then CHR ''1'' else if d = 2 then CHR ''2''
         else if d = 3 then CHR ''3'' else if d = 4 then CHR ''4'' else if d = 5 then CHR ''5''
         else if d = 6 then CHR ''6'' else if d = 7 then CHR ''7'' else if d = 8 then CHR ''8''
         else CHR ''9'')"

definition c_month :: "cell \<Rightarrow> error + cell" where
  "c_month x =
     (case x of
        TS t \<Rightarrow> Inr (S [digit (year t div 1000), digit (year t div 100), digit (year t div 10),
                        digit (year t), CHR ''-'', digit (month t div 10), digit (month t)])
      | NaT \<Rightarrow> Inl ValueError
      | _ \<Rightarrow> Inl AttributeError)"

definition c_year :: "cell \<Rightarrow> error + cell" where
  "c_year x =
     (case x of TS t \<Rightarrow> Inr (F (Fin (of_int (year t)))) | NaT \<Rightarrow> Inl ValueError
      | _ \<Rightarrow> Inl AttributeError)"

text \<open>Columns: \<open>df[c]\<close>, \<open>df[c] = values\<close>, \<open>column.apply(f)\<close> and \<open>a / b\<close>.\<close>

definition getcol :: "dataframe \<Rightarrow> string \<Rightarrow> error + cell list" where
  "getcol df c = (case map_of (columns df) c of None \<Rightarrow> Inl (KeyError c) | Some vs \<Rightarrow> Inr vs)"

definition setcol :: "dataframe \<Rightarrow> string \<Rightarrow> cell list \<Rightarrow> dataframe" where
  "setcol df c vs = df\<lparr>columns := AList.update c vs (columns df)\<rparr>"

fun traverse :: "('a \<Rightarrow> error + 'b) \<Rightarrow> 'a list \<Rightarrow> error + 'b list" where
  "traverse f [] = Inr []"
| "traverse f (v # vs) =
     attempt (f v) (\<lambda>w. attempt (traverse f vs) (\<lambda>ws. Inr (w # ws)))"

definition cell_div :: "cell \<Rightarrow> cell \<Rightarrow> error + cell" where
  "cell_div a b = attempt (as_float a) (\<lambda>x. attempt (as_float b) (\<lambda>y. Inr (F (fdiv x y))))"

text \<open>The quotient of two columns of a table of \<open>n\<close> rows, row by row.\<close>

definition column_div :: "nat \<Rightarrow> cell list \<Rightarrow> cell list \<Rightarrow> error + cell list" where
  "column_div n a b = traverse (\<lambda>i. cell_div (cell_at a i) (cell_at b i)) [0..<n]"

text \<open>
  The assignments of lines 102 to 123, in order: the name of the column and the
  expression that computes it from the table as it is then.
\<close>

definition derived_columns ::
    "(string \<Rightarrow> timestamp option) \<Rightarrow> (string \<times> (dataframe \<Rightarrow> error + cell list)) list" where
  "derived_columns parse =
     [(''c_datetime'', \<lambda>df. attempt (getcol df ''Workout Timestamp'')
                                (traverse (parse_datetime parse))),
      (''c_day'', \<lambda>df. attempt (getcol df ''c_datetime'') (traverse c_day)),
      (''c_week'', \<lambda>df. attempt (getcol df ''c_datetime'') (traverse c_week)),
      (''c_month'', \<lambda>df. attempt (getcol df ''c_datetime'') (traverse c_month)),
      (''c_year'', \<lambda>df. attempt (getcol df ''c_datetime'') (traverse c_year)),
      (''c_calories_per_minute'', \<lambda>df.
          attempt (getcol df ''Calories Burned'') (\<lambda>a.
          attempt (getcol df ''Length (minutes)'') (\<lambda>b. column_div (nrows df) a b))),
      (''c_output_per_minute'', \<lambda>df.
          attempt (getcol df ''Total Output'') (\<lambda>a.
          attempt (getcol df ''Length (minutes)'') (\<lambda>b. column_div (nrows df) a b)))]"

text \<open>
  The table is one object, updated in place: an assignment that raises leaves the
  columns assigned before it.
\<close>

fun assign_all :: "(string \<times> (dataframe \<Rightarrow> error + cell list)) list \<Rightarrow> dataframe \<Rightarrow>
    error option \<times> dataframe" where
  "assign_all [] df = (None, df)"
| "assign_all ((c, f) # rest) df =
     (case f df of Inl e \<Rightarrow> (Some e, df) | Inr vs \<Rightarrow> assign_all rest (setcol df c vs))"

text \<open>
  The session: \<open>st.session_state\<close> maps names to references of tables in the heap,
  or to aggregations.
\<close>

datatype session_value = Ref nat | Agg aggregation

record state =
  heap :: "(nat \<times> dataframe) list"
  session_state :: "(string \<times> session_value) list"

definition aggregation_requests :: "(string \<times> string option) list" where
  "aggregation_requests =
     [(''workouts_aggregation_all_time'', None),
      (''workouts_aggregation_by_year'', Some ''c_year''),
      (''workouts_aggregation_by_month'', Some ''c_month''),
      (''workouts_aggregation_by_week'', Some ''c_week''),
      (''workouts_aggregation_by_day'', Some ''c_day''),
      (''workouts_aggregation_by_instructor'', Some ''Instructor Name''),
      (''workouts_aggregation_by_class_length'', Some ''Length (minutes)'')]"

fun store_aggregations :: "dataframe \<Rightarrow> (string \<times> string option) list \<Rightarrow>
    (string \<times> session_value) list \<Rightarrow> error option \<times> (string \<times> session_value) list" where
  "store_aggregations df [] ss = (None, ss)"
| "store_aggregations df ((name, g) # rest) ss =
     (case Aggregation df g of
        Inl e \<Rightarrow> (Some e, ss)
      | Inr agg \<Rightarrow> store_aggregations df rest (AList.update name (Agg agg) ss))"

text \<open>
  \<open>process_workouts_df\<close> (lines 89 to 143): the error raised, if any, and the state
  it leaves.
\<close>

definition process_workouts_df :: "(string \<Rightarrow> timestamp option) \<Rightarrow> state \<Rightarrow> error option \<times> state" where
  "process_workouts_df parse st =
     (case map_of (session_state st) ''workouts_df'' of
        None \<Rightarrow> (None, st)
      | Some (Agg _) \<Rightarrow> (Some TypeError, st)
      | Some (Ref p) \<Rightarrow>
          (case map_of (heap st) p of
             None \<Rightarrow> (Some TypeError, st)
           | Some workouts_df \<Rightarrow>
               (case assign_all (derived_columns parse) workouts_df of
                  (Some e, df) \<Rightarrow> (Some e, st\<lparr>heap := AList.update p df (heap st)\<rparr>)
                | (None, df) \<Rightarrow>
                    (case store_aggregations df aggregation_requests
                            (AList.update ''workouts_df'' (Ref p) (session_state st)) of
                       (r, ss) \<Rightarrow>
                         (r, \<lparr>heap = AList.update p df (heap st), session_state = ss\<rparr>)))))"

text \<open>The columns that normalisation assigns.\<close>

definition derived_names :: "string list" where
  "derived_names = [''c_datetime'', ''c_day'', ''c_week'', ''c_month'', ''c_year'',
     ''c_calories_per_minute'', ''c_output_per_minute'']"

text \<open>The Monday that begins the ISO-8601 week of a timestamp.\<close>

definition iso_week_start :: "timestamp \<Rightarrow> int" where
  "iso_week_start x = toordinal x - weekday (toordinal x)"

section \<open>Example tables\<close>

text \<open>Three workouts of 30, 60 and unrecorded minutes, with 300, 900 and 500 calories.\<close>

definition scenario_df :: dataframe where
  "scenario_df = \<lparr>nrows = 3, columns =
     [(''Distance (mi)'', [F NaN, F NaN, F (Fin 7)]),
      (''Length (minutes)'', [F (Fin 30), F (Fin 60), F NaN]),
      (''Total Output'', [F NaN, F NaN, F NaN]),
      (''Calories Burned'', [F (Fin 300), F (Fin 900), F (Fin 500)]),
      (''Avg. Heartrate'', [F NaN, F NaN, F (Fin 150)]),
      (''Avg. Speed (mph)'', [F NaN, F NaN, F NaN]),
      (''Avg. Cadence (RPM)'', [F NaN, F NaN, F NaN])]\<rparr>"

definition scenario_summary :: summary where
  "scenario_summary = \<lparr>Total_Workouts = Fin 3, Total_Minutes = Fin 90,
     Total_Distance = Fin 7, Total_Output = NaN, Total_Calories = Fin 1200,
     Output_per_Minute = NaN, Calories_per_Minute = Fin (1200 / 90), Avg_Heartrate = NaN,
     Avg_Speed = NaN, Avg_Cadence = NaN\<rparr>"

text \<open>Two workouts of 45 minutes at 20 mph with one instructor, a third without instructor.\<close>

definition uniform_df :: dataframe where
  "uniform_df = \<lparr>nrows = 3, columns =
     [(''Instructor Name'', [S ''Ann'', S ''Ann'', F NaN]),
      (''Distance (mi)'', [F (Fin 15), F (Fin 15), F NaN]),
      (''Length (minutes)'', [F (Fin 45), F (Fin 45), F (Fin 20)]),
      (''Total Output'', [F (Fin 400), F (Fin 500), F NaN]),
      (''Calories Burned'', [F (Fin 600), F (Fin 300), F NaN]),
      (''Avg. Heartrate'', [F NaN, F (Fin 140), F NaN]),
      (''Avg. Speed (mph)'', [F (Fin 20), F (Fin 20), F NaN]),
      (''Avg. Cadence (RPM)'', [F (Fin 80), F (Fin 90), F NaN])]\<rparr>"

definition uniform_summary :: summary where
  "uniform_summary = \<lparr>Total_Workouts = Fin 2, Total_Minutes = Fin 90,
     Total_Distance = Fin 30, Total_Output = Fin 900, Total_Calories = Fin 900,
     Output_per_Minute = Fin 10, Calories_per_Minute = Fin 10, Avg_Heartrate = Fin 140,
     Avg_Speed = Fin 20, Avg_Cadence = Fin 85\<rparr>"

text \<open>One raw workout of zero minutes and 300 calories, and a table without rows.\<close>

definition raw_df :: dataframe where
  "raw_df = \<lparr>nrows = 1, columns =
     [(''Workout Timestamp'', [S ''2021-01-15 18:30 (-05)'']),
      (''Instructor Name'', [S ''Ann'']),
      (''Distance (mi)'', [F NaN]),
      (''Length (minutes)'', [F (Fin 0)]),
      (''Total Output'', [F NaN]),
      (''Calories Burned'', [F (Fin 300)]),
      (''Avg. Heartrate'', [F NaN]),
      (''Avg. Speed (mph)'', [F NaN]),
      (''Avg. Cadence (RPM)'', [F NaN])]\<rparr>"


text \<open>A reading of the one timestamp of \<open>raw_df\<close>, after the rewrite of its offset.\<close>

definition example_parse :: "string \<Rightarrow> timestamp option" where
  "example_parse s =
     (if s = ''2021-01-15 18:30 (GMT-05)''
      then Some \<lparr>year = 2021, month = 1, day = 15, time_of_day = 84600\<rparr> else None)"

definition normalized_df :: dataframe where
  "normalized_df = raw_df\<lparr>columns := columns raw_df @
     [(''c_datetime'', [TS \<lparr>year = 2021, month = 1, day = 15, time_of_day = 84600\<rparr>]),
      (''c_day'', [D 737805]),
      (''c_week'', [D 737801]),
      (''c_month'', [S ''2021-01'']),
      (''c_year'', [F (Fin 2021)]),
      (''c_calories_per_minute'', [F PInf]),
      (''c_output_per_minute'', [F NaN])]\<rparr>"


definition raw_state :: state where
  "raw_state = \<lparr>heap = [(0, raw_df)], session_state = [(''workouts_df'', Ref 0)]\<rparr>"


text \<open>Monday 30 December 2019, which is in week 1 of the ISO year 2020.\<close>

definition late_december :: timestamp where
  "late_december = \<lparr>year = 2019, month = 12, day = 30, time_of_day = 0\<rparr>"

section \<open>Properties of the aggregation loop\<close>

lemma attempt_Inr [simp]: "attempt (Inr v) f = f v"
  by (simp add: attempt_def)

lemma attempt_Inl [simp]: "attempt (Inl e) f = Inl e"
  by (simp add: attempt_def)

lemma attempt_eq_Inr: "attempt m f = Inr y \<longleftrightarrow> (\<exists>v. m = Inr v \<and> f v = Inr y)"
  by (cases m) simp_all

lemma if_present_Inr:
  assumes "if_present row col upd a = Inr a'"
  shows "a' = (if present row col then upd (num row col) a else a)"
proof -
  from assms obtain c where c: "map_of row col = Some c"
    by (auto simp: if_present_def getitem_def split: option.splits)
  show ?thesis
  proof (cases "isna c")
    case True
    then have "num row col = NaN"
      using c by (cases c rule: isna.cases) (simp_all add: num_def)
    with assms c True show ?thesis
      by (simp add: if_present_def getitem_def present_def)
  next
    case False
    with assms c obtain x where x: "c = F x" "a' = upd x a"
      by (cases c) (auto simp: if_present_def getitem_def)
    with False have "x \<noteq> NaN" by auto
    with x c show ?thesis by (simp add: present_def num_def)
  qed
qed

lemma length_cell_Inr:
  assumes "getitem row col = Inr c"
  shows "isna c \<Longrightarrow> \<not> present row col"
    and "\<not> isna c \<Longrightarrow> as_float c = Inr m \<Longrightarrow> present row col \<and> num row col = m"
  using assms
  by (cases c rule: isna.cases; auto simp: getitem_def present_def num_def split: option.splits)+

lemma update_accumulators_Inr:
  assumes "update_accumulators key row a = Inr a'"
  shows "a' = pure_update key row a"
proof -
  from assms obtain a1 len where
    a1: "if_present row ''Distance (mi)''
            (\<lambda>x a. a\<lparr>total_distance := add_to (total_distance a) key x\<rparr>)
            (a\<lparr>total_workouts := add_to (total_workouts a) key (Fin 1)\<rparr>) = Inr a1"
    and len: "getitem row ''Length (minutes)'' = Inr len"
    unfolding update_accumulators_def by (auto simp: attempt_eq_Inr)
  have s1: "a1 = a\<lparr>total_workouts := add_to (total_workouts a) key (Fin 1),
      total_distance := credit (present row ''Distance (mi)'') (total_distance a) key
        (num row ''Distance (mi)'')\<rparr>"
    by (simp add: if_present_Inr [OF a1] credit_def)
  show ?thesis
  proof (cases "isna len")
    case True
    with assms a1 len have "a' = a1"
      unfolding update_accumulators_def by simp
    with s1 length_cell_Inr(1) [OF len True] show ?thesis
      by (simp add: pure_update_def credit_def)
  next
    case False
    with assms a1 len obtain m a3 a4 a5 a6 where
      m: "as_float len = Inr m"
      and a3: "if_present row ''Total Output''
                (\<lambda>x a. a\<lparr>total_output := add_to (total_output a) key x,
                         total_output_minutes := add_to (total_output_minutes a) key m\<rparr>)
                (a1\<lparr>total_time := add_to (total_time a1) key m\<rparr>) = Inr a3"
      and a4: "if_present row ''Calories Burned''
                (\<lambda>x a. a\<lparr>total_calories := add_to (total_calories a) key x,
                         total_calories_minutes := add_to (total_calories_minutes a) key m\<rparr>) a3 = Inr a4"
      and a5: "if_present row ''Avg. Heartrate''
                (\<lambda>x a. a\<lparr>total_hr := add_to (total_hr a) key (fmul m x),
                         total_hr_minutes := add_to (total_hr_minutes a) key m\<rparr>) a4 = Inr a5"
      and a6: "if_present row ''Avg. Speed (mph)''
                (\<lambda>x a. a\<lparr>total_speed := add_to (total_speed a) key (fmul m x),
                         total_speed_minutes := add_to (total_speed_minutes a) key m\<rparr>) a5 = Inr a6"
      and a7: "if_present row ''Avg. Cadence (RPM)''
                (\<lambda>x a. a\<lparr>total_cadence := add_to (total_cadence a) key (fmul m x),
                         total_cadence_minutes := add_to (total_cadence_minutes a) key m\<rparr>) a6 = Inr a'"
      unfolding update_accumulators_def by (auto simp: attempt_eq_Inr)
    note pm = length_cell_Inr(2) [OF len False m]
    have s3: "a3 = a1\<lparr>total_time := add_to (total_time a1) key m,
        total_output := credit (present row ''Total Output'') (total_output a1) key
          (num row ''Total Output''),
        total_output_minutes := credit (present row ''Total Output'')
          (total_output_minutes a1) key m\<rparr>"
      by (simp add: if_present_Inr [OF a3] credit_def)
    have s4: "a4 = a3\<lparr>total_calories := credit (present row ''Calories Burned'')
          (total_calories a3) key (num row ''Calories Burned''),
        total_calories_minutes := credit (present row ''Calories Burned'')
          (total_calories_minutes a3) key m\<rparr>"
      by (simp add: if_present_Inr [OF a4] credit_def)
    have s5: "a5 = a4\<lparr>total_hr := credit (present row ''Avg. Heartrate'')
          (total_hr a4) key (fmul m (num row ''Avg. Heartrate'')),
        total_hr_minutes := credit (present row ''Avg. Heartrate'')
          (total_hr_minutes a4) key m\<rparr>"
      by (simp add: if_present_Inr [OF a5] credit_def)
    have s6: "a6 = a5\<lparr>total_speed := credit (present row ''Avg. Speed (mph)'')
          (total_speed a5) key (fmul m (num row ''Avg. Speed (mph)'')),
        total_speed_minutes := credit (present row ''Avg. Speed (mph)'')
          (total_speed_minutes a5) key m\<rparr>"
      by (simp add: if_present_Inr [OF a6] credit_def)
    have s7: "a' = a6\<lparr>total_cadence := credit (present row ''Avg. Cadence (RPM)'')
          (total_cadence a6) key (fmul m (num row ''Avg. Cadence (RPM)'')),
        total_cadence_minutes := credit (present row ''Avg. Cadence (RPM)'')
          (total_cadence_minutes a6) key m\<rparr>"
      by (simp add: if_present_Inr [OF a7] credit_def)
    have c: "credit True d key x = add_to d key x" for d x
      by (simp add: credit_def)
    show ?thesis
      unfolding s7 s6 s5 s4 s3 s1 pure_update_def Let_def using pm
      by (simp add: c)
  qed
qed

lemma row_key_Inr: "row_key g r = Inr k \<Longrightarrow> key_of g r = k"
  by (cases k) (simp_all add: key_of_def)

lemma accumulate_Inr:
  "accumulate g rows a = Inr a' \<Longrightarrow> a' = pure_accumulate g rows a"
proof (induction rows arbitrary: a)
  case Nil
  then show ?case by simp
next
  case (Cons r rows)
  from Cons.prems obtain k where k: "row_key g r = Inr k"
    by (auto simp: attempt_eq_Inr)
  note ko = row_key_Inr [OF k]
  show ?case
  proof (cases k)
    case None
    with Cons.prems k have "accumulate g rows a = Inr a'" by simp
    from Cons.IH [OF this] ko None show ?thesis by simp
  next
    case (Some key)
    with Cons.prems k obtain a1 where a1: "update_accumulators key r a = Inr a1"
      and rest: "accumulate g rows a1 = Inr a'"
      by (auto simp: attempt_eq_Inr)
    from Cons.IH [OF rest] update_accumulators_Inr [OF a1] ko Some show ?thesis by simp
  qed
qed

lemma credit_True [simp]: "credit True d key x = add_to d key x"
  by (simp add: credit_def)

lemmas row_cols = pure_update_def Let_def


lemma tally_total_workouts:
  "total_workouts (pure_accumulate g rows a) =
     tally g (\<lambda>r. True) (\<lambda>r. Fin 1) rows (total_workouts a)"
  by (induction rows arbitrary: a)
    (simp_all add: row_cols has_both_def minutes_def split: option.splits)

lemma tally_total_time:
  "total_time (pure_accumulate g rows a) =
     tally g (\<lambda>r. present r ''Length (minutes)'') minutes rows (total_time a)"
  by (induction rows arbitrary: a)
    (simp_all add: row_cols has_both_def minutes_def split: option.splits)

lemma tally_total_distance:
  "total_distance (pure_accumulate g rows a) =
     tally g (\<lambda>r. present r ''Distance (mi)'') (\<lambda>r. num r ''Distance (mi)'') rows (total_distance a)"
  by (induction rows arbitrary: a)
    (simp_all add: row_cols has_both_def minutes_def split: option.splits)

lemma tally_total_output:
  "total_output (pure_accumulate g rows a) =
     tally g (has_both ''Total Output'') (\<lambda>r. num r ''Total Output'') rows (total_output a)"
  by (induction rows arbitrary: a)
    (simp_all add: row_cols has_both_def minutes_def split: option.splits)

lemma tally_total_output_minutes:
  "total_output_minutes (pure_accumulate g rows a) =
     tally g (has_both ''Total Output'') minutes rows (total_output_minutes a)"
  by (induction rows arbitrary: a)
    (simp_all add: row_cols has_both_def minutes_def split: option.splits)

lemma tally_total_calories:
  "total_calories (pure_accumulate g rows a) =
     tally g (has_both ''Calories Burned'') (\<lambda>r. num r ''Calories Burned'') rows (total_calories a)"
  by (induction rows arbitrary: a)
    (simp_all add: row_cols has_both_def minutes_def split: option.splits)

lemma tally_total_calories_minutes:
  "total_calories_minutes (pure_accumulate g rows a) =
     tally g (has_both ''Calories Burned'') minutes rows (total_calories_minutes a)"
  by (induction rows arbitrary: a)
    (simp_all add: row_cols has_both_def minutes_def split: option.splits)

lemma tally_total_hr:
  "total_hr (pure_accumulate g rows a) =
     tally g (has_both ''Avg. Heartrate'') (\<lambda>r. fmul (minutes r) (num r ''Avg. Heartrate'')) rows (total_hr a)"
  by (induction rows arbitrary: a)
    (simp_all add: row_cols has_both_def minutes_def split: option.splits)

lemma tally_total_hr_minutes:
  "total_hr_minutes (pure_accumulate g rows a) =
     tally g (has_both ''Avg. Heartrate'') minutes rows (total_hr_minutes a)"
  by (induction rows arbitrary: a)
    (simp_all add: row_cols has_both_def minutes_def split: option.splits)

lemma tally_total_speed:
  "total_speed (pure_accumulate g rows a) =
     tally g (has_both ''Avg. Speed (mph)'') (\<lambda>r. fmul (minutes r) (num r ''Avg. Speed (mph)'')) rows (total_speed a)"
  by (induction rows arbitrary: a)
    (simp_all add: row_cols has_both_def minutes_def split: option.splits)

lemma tally_total_speed_minutes:
  "total_speed_minutes (pure_accumulate g rows a) =
     tally g (has_both ''Avg. Speed (mph)'') minutes rows (total_speed_minutes a)"
  by (induction rows arbitrary: a)
    (simp_all add: row_cols has_both_def minutes_def split: option.splits)

lemma tally_total_cadence:
  "total_cadence (pure_accumulate g rows a) =
     tally g (has_both ''Avg. Cadence (RPM)'') (\<lambda>r. fmul (minutes r) (num r ''Avg. Cadence (RPM)'')) rows (total_cadence a)"
  by (induction rows arbitrary: a)
    (simp_all add: row_cols has_both_def minutes_def split: option.splits)

lemma tally_total_cadence_minutes:
  "total_cadence_minutes (pure_accumulate g rows a) =
     tally g (has_both ''Avg. Cadence (RPM)'') minutes rows (total_cadence_minutes a)"
  by (induction rows arbitrary: a)
    (simp_all add: row_cols has_both_def minutes_def split: option.splits)

lemma map_of_add_to:
  "map_of (add_to d k x) k' =
     (if k' = k then Some (fadd (case map_of d k of None \<Rightarrow> Fin 0 | Some v \<Rightarrow> v) x) else map_of d k')"
  by (simp add: add_to_def update_conv')

lemma keys_add_to: "fst ` set (add_to d k x) = insert k (fst ` set d)"
  by (simp add: add_to_def dom_update)

lemma qualifying_Cons:
  "qualifying g k q (r # rows) =
     (if key_of g r = Some k \<and> q r then r # qualifying g k q rows else qualifying g k q rows)"
  by (simp add: qualifying_def group_rows_def)

lemma map_of_tally:
  "map_of (tally g q v rows d) k =
     foldl (\<lambda>m x. Some (fadd (case m of None \<Rightarrow> Fin 0 | Some y \<Rightarrow> y) x)) (map_of d k)
       (map v (qualifying g k q rows))"
proof (induction rows arbitrary: d)
  case Nil
  show ?case by (simp add: qualifying_def group_rows_def)
next
  case (Cons r rows)
  show ?case
    by (cases "key_of g r")
      (simp_all add: Cons.IH qualifying_Cons credit_def map_of_add_to)
qed

lemma foldl_Some:
  "foldl (\<lambda>m x. Some (fadd (case m of None \<Rightarrow> Fin 0 | Some y \<Rightarrow> y) x)) (Some y) xs =
     Some (foldl fadd y xs)"
  by (induction xs arbitrary: y) simp_all

lemma foldl_None:
  "foldl (\<lambda>m x. Some (fadd (case m of None \<Rightarrow> Fin 0 | Some y \<Rightarrow> y) x)) None xs =
     (if xs = [] then None else Some (fsum xs))"
  by (cases xs) (simp_all add: foldl_Some fsum_def)

lemma map_of_tally_empty:
  "map_of (tally g q v rows []) k =
     (if qualifying g k q rows = [] then None else Some (fsum (map v (qualifying g k q rows))))"
  by (simp add: map_of_tally foldl_None)

lemma keys_tally_empty:
  "k \<in> fst ` set (tally g q v rows []) \<longleftrightarrow> qualifying g k q rows \<noteq> []"
proof -
  have "k \<in> fst ` set (tally g q v rows []) \<longleftrightarrow> map_of (tally g q v rows []) k \<noteq> None"
    by (simp add: map_of_eq_None_iff)
  then show ?thesis by (simp add: map_of_tally_empty)
qed

lemma value_at_tally_empty:
  "value_at (tally g q v rows []) k =
     (if qualifying g k q rows = [] then NaN else fsum (map v (qualifying g k q rows)))"
  by (simp add: value_at_def map_of_tally_empty)

lemma map_of_keyed: "map_of (map (\<lambda>k. (k, f k)) ks) k = (if k \<in> set ks then Some (f k) else None)"
  by (induction ks) auto

lemma value_at_series_div:
  "value_at (series_div a b) k =
     (case (map_of a k, map_of b k) of (Some x, Some y) \<Rightarrow> fdiv x y | _ \<Rightarrow> NaN)"
proof (cases "k \<in> set (union_index [a, b])")
  case True
  then show ?thesis by (simp add: value_at_def series_div_def map_of_keyed)
next
  case False
  then have "map_of a k = None" "map_of b k = None"
    by (auto simp: union_index_def map_of_eq_None_iff)
  with False show ?thesis by (simp add: value_at_def series_div_def map_of_keyed)
qed

lemma keys_series_div: "fst ` set (series_div a b) = fst ` set a \<union> fst ` set b"
proof -
  have "fst ` set (series_div a b) = set (union_index [a, b])"
    by (simp add: series_div_def image_image)
  then show ?thesis by (simp add: union_index_def)
qed

lemma ratio_tally_empty:
  "value_at (series_div (tally g q v rows []) (tally g q w rows [])) k =
     fdiv (fsum (map v (qualifying g k q rows))) (fsum (map w (qualifying g k q rows)))"
  by (simp add: value_at_series_div map_of_tally_empty fsum_def)

section \<open>The summary table in closed form\<close>

lemma Aggregation_Inr:
  assumes "Aggregation df g = Inr agg"
  shows "agg = \<lparr>group_by = g,
     aggregated_df = DataFrame (pure_accumulate g (iterrows df) empty_accumulators)\<rparr>"
proof -
  from assms obtain a where a: "accumulate g (iterrows df) empty_accumulators = Inr a"
    and agg: "agg = \<lparr>group_by = g, aggregated_df = DataFrame a\<rparr>"
    by (auto simp: Aggregation_def attempt_eq_Inr)
  from accumulate_Inr [OF a] agg show ?thesis by simp
qed

lemma qualifying_True [simp]: "qualifying g k (\<lambda>r. True) rows = group_rows g k rows"
  by (simp add: qualifying_def)

lemma qualifying_nonempty: "qualifying g k q rows \<noteq> [] \<Longrightarrow> group_rows g k rows \<noteq> []"
  by (auto simp: qualifying_def)

lemma set_union_index: "set (union_index ss) = (\<Union>s \<in> set ss. fst ` set s)"
  by (auto simp: union_index_def)

lemmas tally_fields = tally_total_workouts tally_total_time tally_total_distance
  tally_total_output tally_total_output_minutes tally_total_calories
  tally_total_calories_minutes tally_total_hr tally_total_hr_minutes tally_total_speed
  tally_total_speed_minutes tally_total_cadence tally_total_cadence_minutes

lemma empty_fields [simp]:
  "total_workouts empty_accumulators = []" "total_time empty_accumulators = []"
  "total_distance empty_accumulators = []" "total_output empty_accumulators = []"
  "total_output_minutes empty_accumulators = []" "total_calories empty_accumulators = []"
  "total_calories_minutes empty_accumulators = []" "total_hr empty_accumulators = []"
  "total_hr_minutes empty_accumulators = []" "total_speed empty_accumulators = []"
  "total_speed_minutes empty_accumulators = []" "total_cadence empty_accumulators = []"
  "total_cadence_minutes empty_accumulators = []"
  by (simp_all add: empty_accumulators_def)

lemma index_DataFrame: "map fst (DataFrame a) =
    union_index [total_workouts a, total_time a, total_distance a, total_output a,
      total_calories a, series_div (total_output a) (total_output_minutes a),
      series_div (total_calories a) (total_calories_minutes a),
      series_div (total_hr a) (total_hr_minutes a),
      series_div (total_speed a) (total_speed_minutes a),
      series_div (total_cadence a) (total_cadence_minutes a)]"
  by (simp add: DataFrame_def Let_def comp_def)


lemma keys_DataFrame:
  "k \<in> fst ` set (DataFrame (pure_accumulate g rows empty_accumulators)) \<longleftrightarrow>
     group_rows g k rows \<noteq> []"
proof -
  have "fst ` set (DataFrame (pure_accumulate g rows empty_accumulators)) =
      set (map fst (DataFrame (pure_accumulate g rows empty_accumulators)))"
    by simp
  also have "k \<in> \<dots> \<longleftrightarrow> group_rows g k rows \<noteq> []"
    unfolding index_DataFrame set_union_index
    using qualifying_nonempty [of g k _ rows]
    by (auto simp: tally_fields keys_series_div keys_tally_empty)
  finally show ?thesis .
qed

lemma entry_DataFrame:
  assumes "(k, s) \<in> set (DataFrame a)"
  shows "s = \<lparr>Total_Workouts = value_at (total_workouts a) k,
       Total_Minutes = value_at (total_time a) k,
       Total_Distance = value_at (total_distance a) k,
       Total_Output = value_at (total_output a) k,
       Total_Calories = value_at (total_calories a) k,
       Output_per_Minute = value_at (series_div (total_output a) (total_output_minutes a)) k,
       Calories_per_Minute =
         value_at (series_div (total_calories a) (total_calories_minutes a)) k,
       Avg_Heartrate = value_at (series_div (total_hr a) (total_hr_minutes a)) k,
       Avg_Speed = value_at (series_div (total_speed a) (total_speed_minutes a)) k,
       Avg_Cadence = value_at (series_div (total_cadence a) (total_cadence_minutes a)) k\<rparr>"
  using assms by (auto simp: DataFrame_def Let_def)

lemma foldl_fadd_ones:
  "foldl fadd (Fin a) (map (\<lambda>r. Fin 1) xs) = Fin (a + real (length xs))"
  by (induction xs arbitrary: a) (simp_all add: add.assoc)

lemma fsum_ones: "fsum (map (\<lambda>r. Fin 1) xs) = Fin (real (length xs))"
  by (simp add: fsum_def foldl_fadd_ones)



lemma summary_in_group:
  assumes "Aggregation df g = Inr agg" and "(k, s) \<in> set (aggregated_df agg)"
  shows "group_rows g k (iterrows df) \<noteq> []"
proof -
  from assms have "k \<in> fst ` set (DataFrame (pure_accumulate g (iterrows df) empty_accumulators))"
    by (force simp: Aggregation_Inr [OF assms(1)])
  then show ?thesis by (simp add: keys_DataFrame)
qed

lemma summary_entry:
  assumes "Aggregation df g = Inr agg" and "(k, s) \<in> set (aggregated_df agg)"
  shows "s = \<lparr>Total_Workouts = Fin (real (length (group_rows g k (iterrows df)))),
       Total_Minutes = value_at (tally g (\<lambda>r. present r ''Length (minutes)'') minutes (iterrows df) []) k,
       Total_Distance = value_at (tally g (\<lambda>r. present r ''Distance (mi)'')
          (\<lambda>r. num r ''Distance (mi)'') (iterrows df) []) k,
       Total_Output = value_at (tally g (has_both ''Total Output'')
          (\<lambda>r. num r ''Total Output'') (iterrows df) []) k,
       Total_Calories = value_at (tally g (has_both ''Calories Burned'')
          (\<lambda>r. num r ''Calories Burned'') (iterrows df) []) k,
       Output_per_Minute =
         fdiv (fsum (map (\<lambda>r. num r ''Total Output'')
                 (qualifying g k (has_both ''Total Output'') (iterrows df))))
              (fsum (map minutes (qualifying g k (has_both ''Total Output'') (iterrows df)))),
       Calories_per_Minute =
         fdiv (fsum (map (\<lambda>r. num r ''Calories Burned'')
                 (qualifying g k (has_both ''Calories Burned'') (iterrows df))))
              (fsum (map minutes (qualifying g k (has_both ''Calories Burned'') (iterrows df)))),
       Avg_Heartrate =
         fdiv (fsum (map (\<lambda>r. fmul (minutes r) (num r ''Avg. Heartrate''))
                 (qualifying g k (has_both ''Avg. Heartrate'') (iterrows df))))
              (fsum (map minutes (qualifying g k (has_both ''Avg. Heartrate'') (iterrows df)))),
       Avg_Speed =
         fdiv (fsum (map (\<lambda>r. fmul (minutes r) (num r ''Avg. Speed (mph)''))
                 (qualifying g k (has_both ''Avg. Speed (mph)'') (iterrows df))))
              (fsum (map minutes (qualifying g k (has_both ''Avg. Speed (mph)'') (iterrows df)))),
       Avg_Cadence =
         fdiv (fsum (map (\<lambda>r. fmul (minutes r) (num r ''Avg. Cadence (RPM)''))
                 (qualifying g k (has_both ''Avg. Cadence (RPM)'') (iterrows df))))
              (fsum (map minutes (qualifying g k (has_both ''Avg. Cadence (RPM)'') (iterrows df))))\<rparr>"
proof -
  from assms have "(k, s) \<in> set (DataFrame (pure_accumulate g (iterrows df) empty_accumulators))"
    by (simp add: Aggregation_Inr [OF assms(1)])
  from entry_DataFrame [OF this] summary_in_group [OF assms] show ?thesis
    by (simp add: tally_fields ratio_tally_empty value_at_tally_empty fsum_ones)
qed

section \<open>The claims\<close>

subsection \<open>Ratios per minute (C1)\<close>

lemmas aggregation_eval = Aggregation_def iterrows_def cell_at_def attempt_def row_key_def
  update_accumulators_def if_present_def getitem_def add_to_def empty_accumulators_def
  DataFrame_def series_div_def union_index_def value_at_def finf_def upt_rec

lemma scenario_all_time:
  "Aggregation scenario_df None =
     Inr \<lparr>group_by = None, aggregated_df = [(S ''All Time'', scenario_summary)]\<rparr>"
  by (simp add: scenario_df_def scenario_summary_def aggregation_eval)

text \<open>
  Claim C1. For every group of a successful aggregation, \<open>Calories per Minute\<close> is
  the sum of the calories of the rows of the group that have both calories and length,
  divided by the sum of the lengths of the same rows, and \<open>Output per Minute\<close> is the
  same ratio for the total output; sums are taken in input order and the division is
  the float division. For the three workouts of 30, 60 and unrecorded minutes with
  300, 900 and 500 calories, the all-time summary has 3 workouts, 90 minutes, 1200
  calories and 1200/90 calories per minute.
\<close>

theorem C1_per_minute_ratios:
  assumes "Aggregation df g = Inr agg" and "(k, s) \<in> set (aggregated_df agg)"
  shows "Calories_per_Minute s =
           fdiv (fsum (map (\<lambda>r. num r ''Calories Burned'')
                   (qualifying g k (has_both ''Calories Burned'') (iterrows df))))
                (fsum (map minutes (qualifying g k (has_both ''Calories Burned'') (iterrows df))))
       \<and> Output_per_Minute s =
           fdiv (fsum (map (\<lambda>r. num r ''Total Output'')
                   (qualifying g k (has_both ''Total Output'') (iterrows df))))
                (fsum (map minutes (qualifying g k (has_both ''Total Output'') (iterrows df))))
       \<and> Aggregation scenario_df None =
           Inr \<lparr>group_by = None, aggregated_df = [(S ''All Time'', scenario_summary)]\<rparr>
       \<and> Total_Workouts scenario_summary = Fin 3
       \<and> Total_Minutes scenario_summary = Fin 90
       \<and> Total_Calories scenario_summary = Fin 1200
       \<and> Calories_per_Minute scenario_summary = Fin (1200 / 90)"
proof -
  have "Calories_per_Minute s =
           fdiv (fsum (map (\<lambda>r. num r ''Calories Burned'')
                   (qualifying g k (has_both ''Calories Burned'') (iterrows df))))
                (fsum (map minutes (qualifying g k (has_both ''Calories Burned'') (iterrows df))))"
    by (subst summary_entry [OF assms]) simp
  moreover have "Output_per_Minute s =
           fdiv (fsum (map (\<lambda>r. num r ''Total Output'')
                   (qualifying g k (has_both ''Total Output'') (iterrows df))))
                (fsum (map minutes (qualifying g k (has_both ''Total Output'') (iterrows df))))"
    by (subst summary_entry [OF assms]) simp
  ultimately show ?thesis
    using scenario_all_time by (simp add: scenario_summary_def)
qed

theorem C1_per_minute_ratios_witness:
  "Aggregation scenario_df None =
     Inr \<lparr>group_by = None, aggregated_df = [(S ''All Time'', scenario_summary)]\<rparr>
   \<and> Calories_per_Minute scenario_summary =
       fdiv (fsum (map (\<lambda>r. num r ''Calories Burned'')
               (qualifying None (S ''All Time'') (has_both ''Calories Burned'')
                  (iterrows scenario_df))))
            (fsum (map minutes (qualifying None (S ''All Time'') (has_both ''Calories Burned'')
                  (iterrows scenario_df))))
   \<and> Calories_per_Minute scenario_summary = Fin (40 / 3)"
proof -
  have h: "(S ''All Time'', scenario_summary) \<in>
      set (aggregated_df \<lparr>group_by = None, aggregated_df = [(S ''All Time'', scenario_summary)]\<rparr>)"
    by simp
  from C1_per_minute_ratios [OF scenario_all_time h] scenario_all_time show ?thesis
    by (simp add: scenario_summary_def)
qed

subsection \<open>Counting workouts (C2, C10)\<close>

lemma length_iterrows [simp]: "length (iterrows df) = nrows df"
  by (simp add: iterrows_def)






lemma workouts_of_entry:
  assumes "Aggregation df g = Inr agg" and "(k, s) \<in> set (aggregated_df agg)"
  shows "Total_Workouts s = Fin (real (length (group_rows g k (iterrows df))))"
  by (subst summary_entry [OF assms]) simp



lemma uniform_by_instructor:
  "Aggregation uniform_df (Some ''Instructor Name'') =
     Inr \<lparr>group_by = Some ''Instructor Name'', aggregated_df = [(S ''Ann'', uniform_summary)]\<rparr>"
  by (simp add: uniform_df_def uniform_summary_def aggregation_eval)


text \<open>
  Claim C10. A key is in the summary table exactly when some row maps to it, so every
  summary counts at least one workout; a table without rows, or one whose rows all
  have a null grouping cell, gives the empty summary table, also for the all-time
  aggregation.
\<close>

theorem C10_groups_have_records:
  assumes "Aggregation df g = Inr agg"
  shows "((\<exists>s. (k, s) \<in> set (aggregated_df agg)) \<longleftrightarrow>
            (\<exists>r\<in>set (iterrows df). key_of g r = Some k))
       \<and> (\<forall>e\<in>set (aggregated_df agg).
            \<exists>n. 1 \<le> n \<and> Total_Workouts (snd e) = Fin (real n))
       \<and> ((\<forall>r\<in>set (iterrows df). key_of g r = None) \<longrightarrow> aggregated_df agg = [])
       \<and> (nrows df = 0 \<longrightarrow> aggregated_df agg = [])"
proof -
  let ?rows = "iterrows df"
  let ?A = "pure_accumulate g ?rows empty_accumulators"
  have agg: "aggregated_df agg = DataFrame ?A"
    by (simp add: Aggregation_Inr [OF assms])
  have keys: "k \<in> fst ` set (aggregated_df agg) \<longleftrightarrow> (\<exists>r\<in>set ?rows. key_of g r = Some k)" for k
    unfolding agg keys_DataFrame by (auto simp: group_rows_def filter_empty_conv)
  have "(\<exists>s. (k, s) \<in> set (aggregated_df agg)) \<longleftrightarrow> k \<in> fst ` set (aggregated_df agg)"
    by force
  then have 1: "(\<exists>s. (k, s) \<in> set (aggregated_df agg)) \<longleftrightarrow>
      (\<exists>r\<in>set ?rows. key_of g r = Some k)"
    by (simp add: keys)
  have 2: "\<forall>e\<in>set (aggregated_df agg). \<exists>n. 1 \<le> n \<and> Total_Workouts (snd e) = Fin (real n)"
  proof
    fix e assume "e \<in> set (aggregated_df agg)"
    then have e: "(fst e, snd e) \<in> set (aggregated_df agg)" by simp
    from summary_in_group [OF assms e] have "1 \<le> length (group_rows g (fst e) ?rows)"
      by (cases "group_rows g (fst e) ?rows") simp_all
    with workouts_of_entry [OF assms e]
    show "\<exists>n. 1 \<le> n \<and> Total_Workouts (snd e) = Fin (real n)" by blast
  qed
  have 3: "aggregated_df agg = []" if none: "\<forall>r\<in>set ?rows. key_of g r = None"
  proof (cases "aggregated_df agg")
    case Nil
    then show ?thesis .
  next
    case (Cons e es)
    then have "fst e \<in> fst ` set (aggregated_df agg)" by simp
    with keys none show ?thesis by auto
  qed
  have 4: "aggregated_df agg = []" if "nrows df = 0"
  proof -
    from that have "?rows = []" by (simp add: iterrows_def)
    then show ?thesis by (intro 3) simp
  qed
  from 1 2 3 4 show ?thesis by blast
qed

theorem C10_groups_have_records_witness:
  "Aggregation uniform_df (Some ''Instructor Name'') =
     Inr \<lparr>group_by = Some ''Instructor Name'', aggregated_df = [(S ''Ann'', uniform_summary)]\<rparr>
   \<and> (\<exists>n. 1 \<le> n \<and> Total_Workouts uniform_summary = Fin (real n))
   \<and> (\<exists>r\<in>set (iterrows uniform_df). key_of (Some ''Instructor Name'') r = Some (S ''Ann''))"
  using C10_groups_have_records [OF uniform_by_instructor, of "S ''Ann''"] uniform_by_instructor
  by simp

subsection \<open>Weighted averages (C4)\<close>





subsection \<open>Rows without a length (C5)\<close>



subsection \<open>The week key (C6)\<close>

lemmas ord_eval = ymd2ord_def days_before_year_def days_before_month_def is_leap_def

lemma ordinal_examples:
  "ymd2ord 2019 1 1 = 737060" "ymd2ord 2019 1 7 = 737066" "ymd2ord 2019 6 5 = 737215"
  "ymd2ord 2019 6 10 = 737220" "ymd2ord 2019 12 30 = 737423" "ymd2ord 2020 1 1 = 737425"
  "ymd2ord 2021 1 1 = 737791" "ymd2ord 2021 1 15 = 737805" "ymd2ord 2022 1 1 = 738156"
  by (simp_all add: ord_eval)

lemma week1_mondays:
  "isoweek1monday 2019 = 737059" "isoweek1monday 2020 = 737423"
  "isoweek1monday 2021 = 737794" "isoweek1monday 2022 = 738158"
  by (simp_all add: isoweek1monday_def ordinal_examples)

lemma isocalendar_examples:
  "isocalendar late_december = (2020, 1, 1)"
  "isocalendar \<lparr>year = 2019, month = 6, day = 5, time_of_day = 0\<rparr> = (2019, 23, 3)"
  "isocalendar \<lparr>year = 2021, month = 1, day = 15, time_of_day = 84600\<rparr> = (2021, 2, 5)"
  by (simp_all add: isocalendar_def toordinal_def late_december_def ordinal_examples week1_mondays)

lemma strptime_examples:
  "strptime_Y_W_w 2019 1 1 = Inr 737066"
  "strptime_Y_W_w 2019 23 1 = Inr 737220"
  "strptime_Y_W_w 2021 2 1 = Inr 737801"
  by (simp_all add: strptime_Y_W_w_def calc_julian_from_U_or_W_def weekday_def ordinal_examples)

text \<open>
  Claim C6, at a timestamp on Monday 30 December 2019. Its ISO week is week 1 of 2020
  and begins on that very day, but the week key the program derives is Monday
  7 January 2019: the ISO week number is read back as a \<open>%W\<close> week of the calendar
  year of the timestamp. The same happens all through 2019, where \<open>%W\<close> weeks run
  one behind ISO weeks: Wednesday 5 June 2019 gets the key Monday 10 June 2019.
\<close>

theorem C6_week_start_late_december:
  "isocalendar late_december = (2020, 1, 1)
   \<and> iso_week_start late_december = ymd2ord 2019 12 30
   \<and> c_week (TS late_december) = Inr (D (ymd2ord 2019 1 7))
   \<and> ymd2ord 2019 1 7 \<noteq> ymd2ord 2019 12 30
   \<and> c_week (TS \<lparr>year = 2019, month = 6, day = 5, time_of_day = 0\<rparr>) =
       Inr (D (ymd2ord 2019 6 10))"
proof -
  have "iso_week_start late_december = ymd2ord 2019 12 30"
    by (simp add: iso_week_start_def toordinal_def weekday_def late_december_def ordinal_examples)
  moreover have "c_week (TS late_december) = Inr (D (ymd2ord 2019 1 7))"
    by (simp add: c_week_def isocalendar_examples strptime_examples ordinal_examples)
      (simp add: late_december_def strptime_examples)
  moreover have "c_week (TS \<lparr>year = 2019, month = 6, day = 5, time_of_day = 0\<rparr>) =
       Inr (D (ymd2ord 2019 6 10))"
    by (simp add: c_week_def isocalendar_examples strptime_examples ordinal_examples)
  ultimately show ?thesis
    by (simp add: isocalendar_examples ordinal_examples)
qed

subsection \<open>Normalising the raw example\<close>

lemma rewrite_example:
  "replace ''(+'' ''(GMT+'' (replace ''(-'' ''(GMT-'' ''2021-01-15 18:30 (-05)'') =
     ''2021-01-15 18:30 (GMT-05)''"
  by simp

lemma parse_example:
  "parse_datetime example_parse (S ''2021-01-15 18:30 (-05)'') =
     Inr (TS \<lparr>year = 2021, month = 1, day = 15, time_of_day = 84600\<rparr>)"
  unfolding parse_datetime_def cell.case rewrite_example by (simp add: example_parse_def)

lemma keys_example:
  "c_day (TS \<lparr>year = 2021, month = 1, day = 15, time_of_day = 84600\<rparr>) = Inr (D 737805)"
  "c_week (TS \<lparr>year = 2021, month = 1, day = 15, time_of_day = 84600\<rparr>) = Inr (D 737801)"
  "c_month (TS \<lparr>year = 2021, month = 1, day = 15, time_of_day = 84600\<rparr>) = Inr (S ''2021-01'')"
  "c_year (TS \<lparr>year = 2021, month = 1, day = 15, time_of_day = 84600\<rparr>) = Inr (F (Fin 2021))"
  by (simp_all add: c_day_def c_week_def c_month_def c_year_def toordinal_def digit_def
      ordinal_examples isocalendar_examples strptime_examples)

lemma normalize_raw:
  "assign_all (derived_columns example_parse) raw_df = (None, normalized_df)"
  unfolding derived_columns_def
  by (simp add: raw_df_def normalized_df_def getcol_def setcol_def parse_example keys_example
      column_div_def cell_div_def cell_at_def finf_def)

subsection \<open>Errors of the aggregation (C8)\<close>






lemma DataFrame_empty [simp]: "DataFrame empty_accumulators = []"
  by (simp add: DataFrame_def series_div_def union_index_def)






subsection \<open>The table is updated in place (C9)\<close>

lemma map_of_setcol:
  "map_of (columns (setcol df c vs)) c' = (if c' = c then Some vs else map_of (columns df) c')"
  by (simp add: setcol_def update_conv')

lemma nrows_setcol [simp]: "nrows (setcol df c vs) = nrows df"
  by (simp add: setcol_def)

lemma keys_setcol: "fst ` set (columns (setcol df c vs)) = insert c (fst ` set (columns df))"
  by (simp add: setcol_def dom_update)

lemma assign_all_frame:
  "assign_all fs df = (r, df') \<Longrightarrow>
     nrows df' = nrows df \<and>
     (\<forall>c. c \<notin> fst ` set fs \<longrightarrow> map_of (columns df') c = map_of (columns df) c)"
proof (induction fs df rule: assign_all.induct)
  case (1 df)
  then show ?case by simp
next
  case (2 c f rest df)
  show ?case
  proof (cases "f df")
    case (Inl e)
    with "2.prems" show ?thesis by simp
  next
    case (Inr vs)
    with "2.prems" have "assign_all rest (setcol df c vs) = (r, df')" by simp
    from "2.IH" [OF Inr this] show ?thesis by (auto simp: map_of_setcol)
  qed
qed

lemma assign_all_keys:
  "assign_all fs df = (None, df') \<Longrightarrow>
     fst ` set fs \<union> fst ` set (columns df) \<subseteq> fst ` set (columns df')"
proof (induction fs df rule: assign_all.induct)
  case (1 df)
  then show ?case by simp
next
  case (2 c f rest df)
  show ?case
  proof (cases "f df")
    case (Inl e)
    with "2.prems" show ?thesis by simp
  next
    case (Inr vs)
    with "2.prems" have "assign_all rest (setcol df c vs) = (None, df')" by simp
    from "2.IH" [OF Inr this] show ?thesis by (auto simp: keys_setcol)
  qed
qed

lemma derived_columns_names: "fst ` set (derived_columns parse) = set derived_names"
  by (simp add: derived_columns_def derived_names_def)

lemma process_workouts_df_table:
  assumes "map_of (session_state st) ''workouts_df'' = Some (Ref p)"
    and "map_of (heap st) p = Some df"
    and "process_workouts_df parse st = (r, st')"
  shows "heap st' = AList.update p (snd (assign_all (derived_columns parse) df)) (heap st)"
    and "r = None \<Longrightarrow> fst (assign_all (derived_columns parse) df) = None"
  using assms
  by (auto simp: process_workouts_df_def split: prod.splits option.splits)

text \<open>
  Claim C9, as the program has it. Normalisation works on the table the session
  refers to, in place: after it, whether it raised or not, that same table object has
  the same number of rows and every column whose name is not one of the seven derived
  names is as it was; when nothing was raised, the seven derived columns are columns
  of the table. No other object of the heap is touched.
\<close>

theorem C9_table_updated_in_place:
  assumes "map_of (session_state st) ''workouts_df'' = Some (Ref p)"
    and "map_of (heap st) p = Some df"
    and "process_workouts_df parse st = (r, st')"
  shows "(\<exists>df'. map_of (heap st') p = Some df' \<and> nrows df' = nrows df \<and>
            (\<forall>c. c \<notin> set derived_names \<longrightarrow> map_of (columns df') c = map_of (columns df) c) \<and>
            (r = None \<longrightarrow> set derived_names \<subseteq> fst ` set (columns df')))
       \<and> (\<forall>q. q \<noteq> p \<longrightarrow> map_of (heap st') q = map_of (heap st) q)"
proof -
  obtain e df' where a: "assign_all (derived_columns parse) df = (e, df')"
    by (cases "assign_all (derived_columns parse) df")
  note t = process_workouts_df_table [OF assms]
  from t(1) a have h: "heap st' = AList.update p df' (heap st)" by simp
  then have 1: "map_of (heap st') p = Some df'" by (simp add: update_conv')
  from assign_all_frame [OF a]
  have 2: "nrows df' = nrows df"
    and 3: "\<forall>c. c \<notin> set derived_names \<longrightarrow> map_of (columns df') c = map_of (columns df) c"
    by (simp_all add: derived_columns_names)
  have 4: "set derived_names \<subseteq> fst ` set (columns df')" if "r = None"
  proof -
    from t(2) [OF that] a have "assign_all (derived_columns parse) df = (None, df')" by simp
    from assign_all_keys [OF this] show ?thesis by (simp add: derived_columns_names)
  qed
  from h have 5: "\<forall>q. q \<noteq> p \<longrightarrow> map_of (heap st') q = map_of (heap st) q"
    by (simp add: update_conv')
  from 1 2 3 4 5 show ?thesis by blast
qed

text \<open>
  Claim C9 as stated fails: normalisation does not produce a new table and leave the
  caller's one alone. The raw table at address 0 is itself the normalised table
  afterwards, with the column \<open>c_week\<close> it did not have.
\<close>

theorem C9_table_updated_in_place_counterexample:
  "map_of (session_state raw_state) ''workouts_df'' = Some (Ref 0)
   \<and> map_of (heap raw_state) 0 = Some raw_df
   \<and> map_of (heap (snd (process_workouts_df example_parse raw_state))) 0 = Some normalized_df
   \<and> normalized_df \<noteq> raw_df
   \<and> map_of (columns raw_df) ''c_week'' = None
   \<and> map_of (columns normalized_df) ''c_week'' = Some [D 737801]"
proof -
  have s: "map_of (session_state raw_state) ''workouts_df'' = Some (Ref 0)"
    and h: "map_of (heap raw_state) 0 = Some raw_df"
    by (simp_all add: raw_state_def)
  have p: "process_workouts_df example_parse raw_state =
      (fst (process_workouts_df example_parse raw_state),
       snd (process_workouts_df example_parse raw_state))"
    by simp
  from process_workouts_df_table(1) [OF s h p]
  have 1: "map_of (heap (snd (process_workouts_df example_parse raw_state))) 0 = Some normalized_df"
    by (simp add: normalize_raw update_conv')
  have 2: "map_of (columns raw_df) ''c_week'' = None"
    by (simp add: raw_df_def)
  have 3: "map_of (columns normalized_df) ''c_week'' = Some [D 737801]"
    by (simp add: normalized_df_def raw_df_def)
  from 2 3 have "normalized_df \<noteq> raw_df" by auto
  with s h 1 2 3 show ?thesis by blast
qed

theorem C9_table_updated_in_place_witness:
  "map_of (session_state raw_state) ''workouts_df'' = Some (Ref 0)
   \<and> map_of (heap raw_state) 0 = Some raw_df
   \<and> (\<exists>df'. map_of (heap (snd (process_workouts_df example_parse raw_state))) 0 = Some df'
         \<and> nrows df' = 1
         \<and> map_of (columns df') ''Calories Burned'' = Some [F (Fin 300)])"
proof -
  have s: "map_of (session_state raw_state) ''workouts_df'' = Some (Ref 0)"
    and h: "map_of (heap raw_state) 0 = Some raw_df"
    by (simp_all add: raw_state_def)
  have p: "process_workouts_df example_parse raw_state =
      (fst (process_workouts_df example_parse raw_state),
       snd (process_workouts_df example_parse raw_state))"
    by simp
  have c: "''Calories Burned'' \<notin> set derived_names"
    by (simp add: derived_names_def)
  have r: "nrows raw_df = 1" "map_of (columns raw_df) ''Calories Burned'' = Some [F (Fin 300)]"
    by (simp_all add: raw_df_def)
  from C9_table_updated_in_place [OF s h p] c r s h show ?thesis
    by metis
qed

subsection \<open>Division by zero or by an absent value (C3)\<close>

lemma fdiv_NaN_right [simp]: "fdiv x NaN = NaN"
  by (cases x) simp_all

lemma fdiv_over_zero: "fdiv (Fin x) (Fin 0) = over_zero x"
  by (simp add: over_zero_def finf_def)

















end
